theory Spec2Isabelle
  imports Complex_Main "HOL-Library.Word" "HOL-Library.Signed_Division"
begin

unbundle bit_operations_syntax

section \<open>Broadcom STB AVS TMON thermal sensor driver (brcmstb\_thermal.c)\<close>

subsection \<open>Machine types and kernel macros\<close>

text \<open>
  The driver works on 32-bit registers (\<open>u32\<close>) and on C \<open>int\<close> temperatures in
  millidegree Celsius. Both are 32-bit words here; a cast between \<open>u32\<close> and \<open>int\<close>
  reinterprets the same bits, \<open>sint\<close> reads a word as the C \<open>int\<close> it stands for and
  \<open>\<le>s\<close>, \<open><s\<close> are the signed comparisons of C.
\<close>

type_synonym u32 = "32 word"
type_synonym s32 = "32 word"

text \<open>
  Modelled from the spec: the macro \<open>BIT\<close> (linux/bits.h) is not part of the sources at
  hand. In the register table of the specification \<open>BIT(n)\<close> names the single bit \<open>n\<close>
  of a register (bit 0 the LOW enable, bit 1 the HIGH enable).
\<close>

definition BIT :: "nat \<Rightarrow> u32" where
  "BIT n = push_bit n 1"

text \<open>
  Modelled from the spec: the macro \<open>GENMASK\<close> (linux/bits.h) is not part of the sources
  at hand. In the register table of the specification \<open>GENMASK(h, l)\<close> names the bits \<open>l\<close>
  to \<open>h\<close> of a register, both ends included (bits 1 to 10 the LOW threshold code, bits 17
  to 26 the HIGH threshold code).
\<close>

definition GENMASK :: "nat \<Rightarrow> nat \<Rightarrow> u32" where
  "GENMASK h l = push_bit l (mask (Suc h - l))"

text \<open>
  C division of two \<open>int\<close> values truncates towards zero: \<open>sdiv\<close> on the signed readings.
\<close>

definition c_div :: "s32 \<Rightarrow> s32 \<Rightarrow> s32" where
  "c_div a b = word_of_int (sint a sdiv sint b)"

text \<open>
  Modelled from the spec: the macro \<open>DIV_ROUND_UP\<close> (linux/math.h) is not part of the
  sources at hand. The specification says that the quotient is rounded up (ceiling
  division); the kernel computes it as \<open>(n + d - 1) / d\<close> in the type of its arguments,
  here \<open>int\<close>.
\<close>

definition DIV_ROUND_UP :: "s32 \<Rightarrow> s32 \<Rightarrow> s32" where
  "DIV_ROUND_UP n d = c_div (n + d - 1) d"

text \<open>
  Modelled from the spec: \<open>INT_MAX\<close>, the largest C \<open>int\<close>, comes from a system header
  that is not part of the sources at hand. The specification uses it as the sentinel of
  an absent bound; \<open>int\<close> has 32 bits on every Linux target.
\<close>

definition INT_MAX :: s32 where
  "INT_MAX = 0x7fffffff"

text \<open>
  Modelled from the spec: the error number \<open>EIO\<close> comes from a system header that is not
  part of the sources at hand. It is the only error the driver core returns; the
  specification calls it \<open>NotReady\<close>.
\<close>

datatype errno = EIO

subsection \<open>Register offsets and constants\<close>

definition AVS_TMON_STATUS :: u32 where "AVS_TMON_STATUS = 0x00"
definition AVS_TMON_EN_OVERTEMP_RESET :: u32 where "AVS_TMON_EN_OVERTEMP_RESET = 0x04"
definition AVS_TMON_EN_OVERTEMP_RESET_msk :: u32 where "AVS_TMON_EN_OVERTEMP_RESET_msk = BIT 0"
definition AVS_TMON_RESET_THRESH :: u32 where "AVS_TMON_RESET_THRESH = 0x08"
definition AVS_TMON_RESET_THRESH_msk :: u32 where "AVS_TMON_RESET_THRESH_msk = GENMASK 10 1"
definition AVS_TMON_RESET_THRESH_shift :: nat where "AVS_TMON_RESET_THRESH_shift = 1"
definition AVS_TMON_EN_TEMP_INT_SRCS :: u32 where "AVS_TMON_EN_TEMP_INT_SRCS = 0x14"
definition AVS_TMON_EN_TEMP_INT_SRCS_high :: u32 where "AVS_TMON_EN_TEMP_INT_SRCS_high = BIT 1"
definition AVS_TMON_EN_TEMP_INT_SRCS_low :: u32 where "AVS_TMON_EN_TEMP_INT_SRCS_low = BIT 0"
definition AVS_TMON_INT_THRESH :: u32 where "AVS_TMON_INT_THRESH = 0x18"
definition AVS_TMON_INT_THRESH_high_msk :: u32 where "AVS_TMON_INT_THRESH_high_msk = GENMASK 26 17"
definition AVS_TMON_INT_THRESH_high_shift :: nat where "AVS_TMON_INT_THRESH_high_shift = 17"
definition AVS_TMON_INT_THRESH_low_msk :: u32 where "AVS_TMON_INT_THRESH_low_msk = GENMASK 10 1"
definition AVS_TMON_INT_THRESH_low_shift :: nat where "AVS_TMON_INT_THRESH_low_shift = 1"
definition AVS_TMON_TEMP_INT_CODE :: u32 where "AVS_TMON_TEMP_INT_CODE = 0x1c"

definition AVS_TMON_TEMP_SLOPE :: s32 where "AVS_TMON_TEMP_SLOPE = 487"
definition AVS_TMON_TEMP_OFFSET :: s32 where "AVS_TMON_TEMP_OFFSET = 410040"
definition AVS_TMON_TEMP_MAX :: u32 where "AVS_TMON_TEMP_MAX = 0x3ff"
definition AVS_TMON_TEMP_MIN :: s32 where "AVS_TMON_TEMP_MIN = - 88161"

subsection \<open>Trip descriptors\<close>

text \<open>
  \<open>TMON_TRIP_TYPE_MAX\<close>, the fourth enumerator of the source, is the length of the
  descriptor table and never names a trip.
\<close>

datatype avs_tmon_trip_type = TMON_TRIP_TYPE_LOW | TMON_TRIP_TYPE_HIGH | TMON_TRIP_TYPE_RESET

record avs_tmon_trip =
  enable_offs :: u32
  enable_mask :: u32
  reg_offs :: u32
  reg_msk :: u32
  reg_shift :: nat

fun avs_tmon_trips :: "avs_tmon_trip_type \<Rightarrow> avs_tmon_trip" where
  "avs_tmon_trips TMON_TRIP_TYPE_LOW =
     \<lparr>enable_offs = AVS_TMON_EN_TEMP_INT_SRCS,
      enable_mask = AVS_TMON_EN_TEMP_INT_SRCS_low,
      reg_offs = AVS_TMON_INT_THRESH,
      reg_msk = AVS_TMON_INT_THRESH_low_msk,
      reg_shift = AVS_TMON_INT_THRESH_low_shift\<rparr>"
| "avs_tmon_trips TMON_TRIP_TYPE_HIGH =
     \<lparr>enable_offs = AVS_TMON_EN_TEMP_INT_SRCS,
      enable_mask = AVS_TMON_EN_TEMP_INT_SRCS_high,
      reg_offs = AVS_TMON_INT_THRESH,
      reg_msk = AVS_TMON_INT_THRESH_high_msk,
      reg_shift = AVS_TMON_INT_THRESH_high_shift\<rparr>"
| "avs_tmon_trips TMON_TRIP_TYPE_RESET =
     \<lparr>enable_offs = AVS_TMON_EN_OVERTEMP_RESET,
      enable_mask = AVS_TMON_EN_OVERTEMP_RESET_msk,
      reg_offs = AVS_TMON_RESET_THRESH,
      reg_msk = AVS_TMON_RESET_THRESH_msk,
      reg_shift = AVS_TMON_RESET_THRESH_shift\<rparr>"

record brcmstb_thermal_of_data =
  status_valid_mask :: u32
  status_data_mask :: u32
  status_data_shift :: nat

definition bcm7445_thermal_of_data :: brcmstb_thermal_of_data where
  "bcm7445_thermal_of_data =
     \<lparr>status_valid_mask = BIT 11, status_data_mask = GENMASK 10 1, status_data_shift = 1\<rparr>"

definition bcm2711_thermal_of_data :: brcmstb_thermal_of_data where
  "bcm2711_thermal_of_data =
     \<lparr>status_valid_mask = BIT 10, status_data_mask = GENMASK 9 0, status_data_shift = 0\<rparr>"

subsection \<open>The device state\<close>

text \<open>
  The register file behind \<open>tmon_base\<close>, keyed by byte offset; the trace of every
  \<open>__raw_writel\<close> (offset and value, oldest first); and the arguments of every
  \<open>thermal_zone_device_update\<close> call made on the zone (oldest first).
\<close>

record tmon_state =
  regs :: "u32 \<Rightarrow> u32"
  writes :: "(u32 \<times> u32) list"
  notified :: "s32 list"

definition raw_readl :: "tmon_state \<Rightarrow> u32 \<Rightarrow> u32" where
  "raw_readl s offs = regs s offs"

definition raw_writel :: "u32 \<Rightarrow> u32 \<Rightarrow> tmon_state \<Rightarrow> tmon_state" where
  "raw_writel v offs s = s\<lparr>regs := (regs s)(offs := v), writes := writes s @ [(offs, v)]\<rparr>"

definition thermal_zone_device_update :: "s32 \<Rightarrow> tmon_state \<Rightarrow> tmon_state" where
  "thermal_zone_device_update event s = s\<lparr>notified := notified s @ [event]\<rparr>"

subsection \<open>Code and temperature conversion\<close>

definition avs_tmon_code_to_temp :: "u32 \<Rightarrow> s32" where
  "avs_tmon_code_to_temp code =
     AVS_TMON_TEMP_OFFSET - ((code AND AVS_TMON_TEMP_MAX) * AVS_TMON_TEMP_SLOPE)"

definition avs_tmon_temp_to_code :: "s32 \<Rightarrow> bool \<Rightarrow> u32" where
  "avs_tmon_temp_to_code temp low =
     (if temp <s AVS_TMON_TEMP_MIN then AVS_TMON_TEMP_MAX
      else if AVS_TMON_TEMP_OFFSET \<le>s temp then 0
      else if low then DIV_ROUND_UP (AVS_TMON_TEMP_OFFSET - temp) AVS_TMON_TEMP_SLOPE
      else c_div (AVS_TMON_TEMP_OFFSET - temp) AVS_TMON_TEMP_SLOPE)"

subsection \<open>Register access layer\<close>

text \<open>
  \<open>brcmstb_get_temp\<close> returns \<open>-EIO\<close> and leaves \<open>*temp\<close> alone, or returns 0 with the
  temperature stored in \<open>*temp\<close>: \<open>Inl EIO\<close> and \<open>Inr temp\<close>. The local \<open>long t\<close> holds
  the sign-extended \<open>int\<close>; storing it into \<open>*temp\<close> truncates it to 32 bits again.
\<close>

definition brcmstb_get_temp ::
  "brcmstb_thermal_of_data \<Rightarrow> tmon_state \<Rightarrow> (errno + s32) \<times> tmon_state" where
  "brcmstb_get_temp socdata s =
     (let val = raw_readl s AVS_TMON_STATUS in
      if val AND status_valid_mask socdata = 0 then (Inl EIO, s)
      else
        let val = drop_bit (status_data_shift socdata) (val AND status_data_mask socdata);
            t = (scast (avs_tmon_code_to_temp val) :: 64 word)
        in if t <s 0 then (Inr 0, s) else (Inr (ucast t), s))"

definition avs_tmon_trip_enable :: "avs_tmon_trip_type \<Rightarrow> bool \<Rightarrow> tmon_state \<Rightarrow> tmon_state" where
  "avs_tmon_trip_enable type en s =
     (let trip = avs_tmon_trips type;
          val = raw_readl s (enable_offs trip);
          val = (if en then val OR enable_mask trip else val AND NOT (enable_mask trip))
      in raw_writel val (enable_offs trip) s)"

definition avs_tmon_get_trip_temp :: "tmon_state \<Rightarrow> avs_tmon_trip_type \<Rightarrow> s32" where
  "avs_tmon_get_trip_temp s type =
     (let trip = avs_tmon_trips type;
          val = raw_readl s (reg_offs trip);
          val = val AND reg_msk trip;
          val = drop_bit (reg_shift trip) val
      in avs_tmon_code_to_temp val)"

definition avs_tmon_set_trip_temp :: "avs_tmon_trip_type \<Rightarrow> s32 \<Rightarrow> tmon_state \<Rightarrow> tmon_state" where
  "avs_tmon_set_trip_temp type temp s =
     (let trip = avs_tmon_trips type;
          val = avs_tmon_temp_to_code temp (type = TMON_TRIP_TYPE_LOW);
          val = push_bit (reg_shift trip) val;
          val = val AND reg_msk trip;
          orig = raw_readl s (reg_offs trip);
          orig = orig AND NOT (reg_msk trip);
          orig = orig OR val
      in raw_writel orig (reg_offs trip) s)"

definition avs_tmon_get_intr_temp :: "tmon_state \<Rightarrow> s32" where
  "avs_tmon_get_intr_temp s = avs_tmon_code_to_temp (raw_readl s AVS_TMON_TEMP_INT_CODE)"

subsection \<open>Interrupt handler and governor callbacks\<close>

datatype irqreturn = IRQ_NONE | IRQ_HANDLED | IRQ_WAKE_THREAD

definition brcmstb_tmon_irq_thread :: "tmon_state \<Rightarrow> irqreturn \<times> tmon_state" where
  "brcmstb_tmon_irq_thread s =
     (let low = avs_tmon_get_trip_temp s TMON_TRIP_TYPE_LOW;
          high = avs_tmon_get_trip_temp s TMON_TRIP_TYPE_HIGH;
          intr = avs_tmon_get_intr_temp s;
          s = (if high \<le>s intr then avs_tmon_trip_enable TMON_TRIP_TYPE_HIGH False s else s);
          s = (if intr \<le>s low then avs_tmon_trip_enable TMON_TRIP_TYPE_LOW False s else s);
          s = thermal_zone_device_update intr s
      in (IRQ_HANDLED, s))"

definition brcmstb_set_trips :: "s32 \<Rightarrow> s32 \<Rightarrow> tmon_state \<Rightarrow> s32 \<times> tmon_state" where
  "brcmstb_set_trips low high s =
     (let s = (if low \<le>s - INT_MAX then avs_tmon_trip_enable TMON_TRIP_TYPE_LOW False s
               else avs_tmon_trip_enable TMON_TRIP_TYPE_LOW True
                      (avs_tmon_set_trip_temp TMON_TRIP_TYPE_LOW low s));
          s = (if high = INT_MAX then avs_tmon_trip_enable TMON_TRIP_TYPE_HIGH False s
               else avs_tmon_trip_enable TMON_TRIP_TYPE_HIGH True
                      (avs_tmon_set_trip_temp TMON_TRIP_TYPE_HIGH high s))
      in (0, s))"

section \<open>Properties of the conversion\<close>

lemmas tmon_consts = AVS_TMON_TEMP_SLOPE_def AVS_TMON_TEMP_OFFSET_def AVS_TMON_TEMP_MAX_def AVS_TMON_TEMP_MIN_def

lemma and_3ff: "(c::u32) AND 0x3ff = take_bit 10 c"
  by (simp add: take_bit_eq_mask mask_eq_exp_minus_1)

lemma uint_and_3ff: "uint ((c::u32) AND 0x3ff) < 1024"
proof -
  have "uint (take_bit 10 c) < 2 ^ 10"
    unfolding unsigned_take_bit_eq by (rule take_bit_int_less_exp)
  then show ?thesis by (simp add: and_3ff)
qed

lemma sint_word_of_int32: "- 2147483648 \<le> k \<Longrightarrow> k < 2147483648 \<Longrightarrow> sint (word_of_int k :: 32 word) = k"
  by (simp add: signed_of_int signed_take_bit_int_eq_self)

lemma code_to_temp_wi: "avs_tmon_code_to_temp c = word_of_int (410040 - uint (c AND 0x3ff) * 487)"
  by (simp add: avs_tmon_code_to_temp_def tmon_consts)

lemma sint_code_to_temp: "sint (avs_tmon_code_to_temp c) = 410040 - uint (c AND 0x3ff) * 487"
proof -
  have "0 \<le> uint (c AND 0x3ff)" by simp
  moreover note uint_and_3ff [of c]
  ultimately show ?thesis
    unfolding code_to_temp_wi by (intro sint_word_of_int32) linarith+
qed

lemma sless_MIN: "(t <s AVS_TMON_TEMP_MIN) = (sint t < - 88161)"
  by (simp add: word_sless_alt tmon_consts)

lemma sle_OFFSET: "(AVS_TMON_TEMP_OFFSET \<le>s t) = (410040 \<le> sint t)"
  by (simp add: word_sle_eq tmon_consts)

lemma sint_offset_minus:
  assumes "- 88161 \<le> sint (t::s32)" "sint t < 410040"
  shows "sint (410040 - t) = 410040 - sint t"
proof -
  have "410040 - t = word_of_int (410040 - sint t)" by simp
  then show ?thesis using assms by (simp only: ) (rule sint_word_of_int32; linarith)
qed

lemma c_div_pos:
  assumes "0 \<le> sint a" 
  shows "c_div a 487 = word_of_int (sint a div 487)"
  using assms by (simp add: c_div_def signed_divide_int_def sgn_if)

lemma temp_to_code_floor:
  assumes "- 88161 \<le> sint (t::s32)" "sint t < 410040"
  shows "avs_tmon_temp_to_code t False = word_of_int ((410040 - sint t) div 487)"
  using assms
  by (simp add: avs_tmon_temp_to_code_def sless_MIN sle_OFFSET)
     (simp add: tmon_consts c_div_pos sint_offset_minus)

lemma temp_to_code_ceil:
  assumes "- 88161 \<le> sint (t::s32)" "sint t < 410040"
  shows "avs_tmon_temp_to_code t True = word_of_int ((410040 - sint t + 486) div 487)"
proof -
  have "(410040 - t + 487 - 1) = word_of_int (410040 - sint t + 486)" by simp
  moreover have "sint (word_of_int (410040 - sint t + 486) :: s32) = 410040 - sint t + 486"
    using assms by (intro sint_word_of_int32) linarith+
  ultimately have "sint (410040 - t + 487 - 1) = 410040 - sint t + 486" by (simp only:)
  moreover from this have "0 \<le> sint (410040 - t + 487 - 1)" using assms by linarith
  ultimately have "DIV_ROUND_UP (410040 - t) 487 = word_of_int ((410040 - sint t + 486) div 487)"
    unfolding DIV_ROUND_UP_def by (simp only: c_div_pos)
  moreover have "avs_tmon_temp_to_code t True = DIV_ROUND_UP (410040 - t) 487"
    using assms by (simp add: avs_tmon_temp_to_code_def sless_MIN sle_OFFSET) (simp add: tmon_consts)
  ultimately show ?thesis by (simp only:)
qed

lemma uint_word_of_int32: "0 \<le> k \<Longrightarrow> k < 4294967296 \<Longrightarrow> uint (word_of_int k :: 32 word) = k"
  by (simp add: unsigned_of_int take_bit_int_eq_self)

lemma ceil_div487: "\<lceil>real_of_int x / 487\<rceil> = (x + 486) div 487"
proof -
  have "\<lceil>real_of_int x / real_of_int 487\<rceil> = - (- x div 487)"
    by (rule ceiling_divide_eq_div)
  also have "\<dots> = (x + 486) div 487"
  proof -
    define z m where "z = (x + 486) div 487" and "m = (x + 486) mod 487"
    have "x + 486 = 487 * z + m" "0 \<le> m" "m < 487"
      by (simp_all add: z_def m_def)
    then have "- x = 487 * (- z) + (486 - m)" "0 \<le> 486 - m" "486 - m < 487"
      by linarith+
    then have "- x div 487 = - z" by (rule int_div_pos_eq)
    then show ?thesis by (simp add: z_def)
  qed
  finally show ?thesis by simp
qed

lemma floor_div487: "\<lfloor>real_of_int x / 487\<rfloor> = x div 487"
  using floor_divide_of_int_eq [of x 487, where ?'a = real] by simp

lemma div487_bounds:
  assumes "0 \<le> (x::int)" "x \<le> 498687"
  shows "0 \<le> x div 487" "x div 487 \<le> 1023" "x div 487 < 4294967296"
proof -
  show "0 \<le> x div 487" using assms(1) by (simp add: pos_imp_zdiv_nonneg_iff)
  have "x div 487 \<le> 498687 div 487" using assms(2) by (intro zdiv_mono1) simp_all
  then show "x div 487 \<le> 1023" by simp
  then show "x div 487 < 4294967296" by linarith
qed

lemma uint_temp_to_code_floor:
  assumes "- 88161 \<le> sint (t::s32)" "sint t < 410040"
  shows "uint (avs_tmon_temp_to_code t False) = (410040 - sint t) div 487"
proof -
  have "0 \<le> 410040 - sint t" "410040 - sint t \<le> 498687" using assms by linarith+
  then have "0 \<le> (410040 - sint t) div 487" "(410040 - sint t) div 487 < 4294967296"
    by (rule div487_bounds)+
  then show ?thesis
    unfolding temp_to_code_floor [OF assms] by (rule uint_word_of_int32)
qed

lemma uint_temp_to_code_ceil:
  assumes "- 88161 \<le> sint (t::s32)" "sint t < 410040"
  shows "uint (avs_tmon_temp_to_code t True) = (410040 - sint t + 486) div 487"
proof -
  have "0 \<le> 410040 - sint t + 486" "410040 - sint t + 486 \<le> 498687" using assms by linarith+
  then have "0 \<le> (410040 - sint t + 486) div 487" "(410040 - sint t + 486) div 487 < 4294967296"
    by (rule div487_bounds)+
  then show ?thesis
    unfolding temp_to_code_ceil [OF assms] by (rule uint_word_of_int32)
qed

lemma temp_to_code_sat_low: "sint t < - 88161 \<Longrightarrow> avs_tmon_temp_to_code t low = 0x3ff"
  unfolding avs_tmon_temp_to_code_def sless_MIN by (simp add: AVS_TMON_TEMP_MAX_def)

lemma temp_to_code_sat_high:
  assumes "410040 \<le> sint t"
  shows "avs_tmon_temp_to_code t low = 0"
proof -
  from assms have "\<not> sint t < - 88161" by linarith
  with assms show ?thesis
    unfolding avs_tmon_temp_to_code_def sless_MIN sle_OFFSET by (simp only: if_True if_False)
qed

text \<open>
  C4: for every \<open>int\<close> temperature \<open>t\<close> and both values of \<open>low\<close>,
  \<open>avs_tmon_temp_to_code\<close> returns the maximum code 1023 when \<open>t < -88161\<close>, the code 0
  when \<open>t \<ge> 410040\<close>, and otherwise the exact quotient \<open>(410040 - t) / 487\<close>, rounded
  up when \<open>low\<close> is set and down when it is not.
\<close>

theorem temp_to_code_value:
  "uint (avs_tmon_temp_to_code t low) =
     (if sint t < - 88161 then 1023
      else if 410040 \<le> sint t then 0
      else if low then \<lceil>real_of_int (410040 - sint t) / 487\<rceil>
      else \<lfloor>real_of_int (410040 - sint t) / 487\<rfloor>)"
proof -
  consider "sint t < - 88161" | "410040 \<le> sint t" | "- 88161 \<le> sint t" "sint t < 410040"
    by linarith
  then show ?thesis
  proof cases
    case 1
    then show ?thesis by (simp add: temp_to_code_sat_low)
  next
    case 2
    then show ?thesis by (simp add: temp_to_code_sat_high)
  next
    case 3
    then have n: "\<not> sint t < - 88161" "\<not> 410040 \<le> sint t" by linarith+
    show ?thesis
    proof (cases low)
      case True
      then show ?thesis
        by (simp only: n if_True if_False uint_temp_to_code_ceil [OF 3] ceil_div487)
    next
      case False
      then show ?thesis
        by (simp only: n if_True if_False uint_temp_to_code_floor [OF 3] floor_div487)
    qed
  qed
qed

lemma uint_temp_to_code_le: "uint (avs_tmon_temp_to_code t low) \<le> 1023"
proof -
  consider "sint t < - 88161" | "410040 \<le> sint t" | "- 88161 \<le> sint t" "sint t < 410040"
    by linarith
  then show ?thesis
  proof cases
    case 1
    then show ?thesis by (simp add: temp_to_code_sat_low)
  next
    case 2
    then show ?thesis by (simp add: temp_to_code_sat_high)
  next
    case 3
    then have "0 \<le> 410040 - sint t" "410040 - sint t \<le> 498687"
      "0 \<le> 410040 - sint t + 486" "410040 - sint t + 486 \<le> 498687" by linarith+
    then have "(410040 - sint t) div 487 \<le> 1023" "(410040 - sint t + 486) div 487 \<le> 1023"
      by (simp_all only: div487_bounds(2))
    then show ?thesis
      using uint_temp_to_code_floor [OF 3] uint_temp_to_code_ceil [OF 3]
      by (cases low) (simp_all only:)
  qed
qed

text \<open>
  C5: for every code, \<open>avs_tmon_code_to_temp\<close> is \<open>410040 - (code AND 0x3FF) * 487\<close> in
  exact integer arithmetic (nothing wraps around); code 0 gives 410040 and code 1023
  gives -88161, a negative temperature.
\<close>

theorem code_to_temp_value:
  "sint (avs_tmon_code_to_temp code) = 410040 - uint (code AND 0x3ff) * 487
   \<and> sint (avs_tmon_code_to_temp 0) = 410040
   \<and> sint (avs_tmon_code_to_temp 1023) = - 88161"
  by (simp add: sint_code_to_temp)

section \<open>Threshold fields\<close>

lemma le_3ff_take_bit: "(c::u32) \<le> 0x3ff \<Longrightarrow> take_bit 10 c = c"
proof -
  assume "c \<le> 0x3ff"
  then have "uint c \<le> 1023" by (simp add: word_le_def)
  then have "uint c < 2 ^ 10" by simp
  then have "c < 2 ^ 10" by (simp add: word_less_def)
  then have "c AND mask 10 = c" by (rule less_mask_eq)
  then show ?thesis by (simp add: take_bit_eq_mask)
qed

lemma le_3ff_and: "(c::u32) \<le> 0x3ff \<Longrightarrow> c AND 0x3ff = c"
  by (simp add: and_3ff le_3ff_take_bit)

lemma temp_to_code_le_3ff: "avs_tmon_temp_to_code t low \<le> 0x3ff"
  using uint_temp_to_code_le [of t low] by (simp add: word_le_def)

lemma field_fits:
  "sh + 10 \<le> 32 \<Longrightarrow> push_bit sh (take_bit 10 (k::u32)) AND push_bit sh (mask 10) = push_bit sh (take_bit 10 k)"
  by (rule bit_word_eqI) (auto simp add: bit_simps)

lemma field_read_back:
  "sh + 10 \<le> 32 \<Longrightarrow>
   drop_bit sh (((orig AND NOT (push_bit sh (mask 10))) OR (push_bit sh (take_bit 10 (k::u32)) AND push_bit sh (mask 10)))
      AND push_bit sh (mask 10)) = take_bit 10 k"
  by (rule bit_word_eqI) (auto simp add: bit_simps)

lemma field_outside:
  "((orig AND NOT m) OR (v AND m)) AND NOT m = orig AND NOT (m::u32)"
  by (rule bit_word_eqI) (auto simp add: bit_simps)

lemma field_other:
  "sh + 10 \<le> sh' \<or> sh' + 10 \<le> sh \<Longrightarrow>
   ((orig AND NOT (push_bit sh (mask 10))) OR (v AND push_bit sh (mask 10))) AND push_bit sh' (mask 10)
     = orig AND push_bit sh' (mask 10 :: u32)"
  by (rule bit_word_eqI) (auto simp add: bit_simps)

lemmas trip_consts = AVS_TMON_EN_OVERTEMP_RESET_def AVS_TMON_EN_OVERTEMP_RESET_msk_def
  AVS_TMON_RESET_THRESH_def AVS_TMON_RESET_THRESH_msk_def AVS_TMON_RESET_THRESH_shift_def
  AVS_TMON_EN_TEMP_INT_SRCS_def AVS_TMON_EN_TEMP_INT_SRCS_high_def AVS_TMON_EN_TEMP_INT_SRCS_low_def
  AVS_TMON_INT_THRESH_def AVS_TMON_INT_THRESH_high_msk_def AVS_TMON_INT_THRESH_high_shift_def
  AVS_TMON_INT_THRESH_low_msk_def AVS_TMON_INT_THRESH_low_shift_def AVS_TMON_TEMP_INT_CODE_def
  AVS_TMON_STATUS_def

lemma trip_msk_shape: "reg_msk (avs_tmon_trips type) = push_bit (reg_shift (avs_tmon_trips type)) (mask 10)
   \<and> reg_shift (avs_tmon_trips type) + 10 \<le> 32"
  by (cases type) (simp_all add: trip_consts GENMASK_def)

text \<open>
  C9: for every \<open>int\<close> temperature and both rounding modes the code returned by
  \<open>avs_tmon_temp_to_code\<close> lies in 0..1023; so, for every trip, shifting it into the
  threshold field and masking with the field mask (as \<open>avs_tmon_set_trip_temp\<close> does)
  loses nothing: the mask leaves the shifted code as it is and the field reads back as
  the code.
\<close>

theorem temp_to_code_fits_field:
  "uint (avs_tmon_temp_to_code t low) \<le> 1023
   \<and> push_bit (reg_shift (avs_tmon_trips type)) (avs_tmon_temp_to_code t low) AND reg_msk (avs_tmon_trips type)
       = push_bit (reg_shift (avs_tmon_trips type)) (avs_tmon_temp_to_code t low)
   \<and> drop_bit (reg_shift (avs_tmon_trips type))
        (push_bit (reg_shift (avs_tmon_trips type)) (avs_tmon_temp_to_code t low) AND reg_msk (avs_tmon_trips type))
       = avs_tmon_temp_to_code t low"
proof -
  let ?c = "avs_tmon_temp_to_code t low" and ?sh = "reg_shift (avs_tmon_trips type)"
  have tb: "take_bit 10 ?c = ?c" by (rule le_3ff_take_bit) (rule temp_to_code_le_3ff)
  have sh: "?sh + 10 \<le> 32" and m: "reg_msk (avs_tmon_trips type) = push_bit ?sh (mask 10)"
    using trip_msk_shape [of type] by simp_all
  have a: "push_bit ?sh ?c AND push_bit ?sh (mask 10) = push_bit ?sh ?c"
    using field_fits [OF sh, of ?c] by (simp only: tb)
  have "drop_bit ?sh (push_bit ?sh (take_bit 10 ?c)) = take_bit 10 ?c"
    using sh by - (rule bit_word_eqI, auto simp add: bit_simps)
  then have b: "drop_bit ?sh (push_bit ?sh ?c) = ?c" by (simp only: tb)
  show ?thesis
    by (simp only: m a b uint_temp_to_code_le simp_thms)
qed

section \<open>Rounding, round trip and monotonicity\<close>

lemma temp_to_code_modes_agree:
  assumes "487 dvd (410040 - sint t)"
  shows "avs_tmon_temp_to_code t True = avs_tmon_temp_to_code t False"
proof -
  consider "sint t < - 88161" | "410040 \<le> sint t" | "- 88161 \<le> sint t" "sint t < 410040"
    by linarith
  then show ?thesis
  proof cases
    case 1
    then show ?thesis by (simp only: temp_to_code_sat_low)
  next
    case 2
    then show ?thesis by (simp only: temp_to_code_sat_high)
  next
    case 3
    from assms obtain k where k: "410040 - sint t = 487 * k" ..
    have "(487 * k + 486) div 487 = k" by (rule int_div_pos_eq [where r = 486]) simp_all
    moreover have "(487 * k) div 487 = k" by simp
    ultimately have "(410040 - sint t + 486) div 487 = (410040 - sint t) div 487"
      by (simp only: k)
    then show ?thesis
      by (simp only: temp_to_code_floor [OF 3] temp_to_code_ceil [OF 3])
  qed
qed

text \<open>
  C6: rounding asymmetry of \<open>avs_tmon_temp_to_code\<close>. Some temperature inside the
  non-saturating range gets a code one higher with \<open>low\<close> set than without; and at every
  temperature \<open>t\<close> with \<open>410040 - t\<close> an exact multiple of 487 the two modes give the same
  code.
\<close>

theorem temp_to_code_rounding_asymmetry:
  "(\<exists>t. - 88161 \<le> sint t \<and> sint t < 410040
        \<and> avs_tmon_temp_to_code t True = avs_tmon_temp_to_code t False + 1)
   \<and> (487 dvd (410040 - sint t) \<longrightarrow> avs_tmon_temp_to_code t True = avs_tmon_temp_to_code t False)"
proof (intro conjI impI)
  have "- 88161 \<le> sint (50000 :: s32) \<and> sint (50000 :: s32) < 410040
        \<and> avs_tmon_temp_to_code 50000 True = avs_tmon_temp_to_code 50000 False + 1"
    by (simp add: avs_tmon_temp_to_code_def tmon_consts DIV_ROUND_UP_def c_div_def signed_divide_int_def)
  then show "\<exists>t. - 88161 \<le> sint t \<and> sint t < 410040
        \<and> avs_tmon_temp_to_code t True = avs_tmon_temp_to_code t False + 1" ..
next
  assume "487 dvd (410040 - sint t)"
  then show "avs_tmon_temp_to_code t True = avs_tmon_temp_to_code t False"
    by (rule temp_to_code_modes_agree)
qed

theorem temp_to_code_rounding_asymmetry_witness:
  "487 dvd (410040 - sint (405170 :: s32))
   \<and> avs_tmon_temp_to_code 405170 True = 10 \<and> avs_tmon_temp_to_code 405170 False = 10"
proof -
  have d: "487 dvd (410040 - sint (405170 :: s32))" by simp
  have f: "avs_tmon_temp_to_code 405170 False = 10"
    by (simp add: avs_tmon_temp_to_code_def tmon_consts c_div_def signed_divide_int_def)
  from temp_to_code_rounding_asymmetry [of 405170] d
  have "avs_tmon_temp_to_code 405170 True = avs_tmon_temp_to_code 405170 False" by blast
  with d f show ?thesis by simp
qed

lemma code_to_temp_roundtrip:
  assumes "c \<le> 0x3ff"
  shows "avs_tmon_temp_to_code (avs_tmon_code_to_temp c) False = c"
proof -
  let ?t = "avs_tmon_code_to_temp c"
  have s: "sint ?t = 410040 - uint c * 487"
    by (simp only: sint_code_to_temp le_3ff_and [OF assms])
  have u: "0 \<le> uint c" "uint c \<le> 1023" using assms by (simp_all add: word_le_def)
  show ?thesis
  proof (cases "uint c = 0")
    case True
    then have "410040 \<le> sint ?t" using s by simp
    then have "avs_tmon_temp_to_code ?t False = 0" by (rule temp_to_code_sat_high)
    moreover from True have "c = 0" by (simp add: uint_0_iff)
    ultimately show ?thesis by simp
  next
    case False
    with u s have r: "- 88161 \<le> sint ?t" "sint ?t < 410040" by linarith+
    have "410040 - sint ?t = uint c * 487" using s by linarith
    then have "(410040 - sint ?t) div 487 = uint c" by simp
    then show ?thesis by (simp only: temp_to_code_floor [OF r] word_of_int_uint)
  qed
qed

lemma code_to_temp_antimono:
  assumes "c1 < c2" "c2 \<le> 0x3ff"
  shows "avs_tmon_code_to_temp c2 <s avs_tmon_code_to_temp c1"
proof -
  from assms have c1: "c1 \<le> 0x3ff" by simp
  have "uint c1 < uint c2" using assms(1) by (simp add: word_less_def)
  then have "410040 - uint c2 * 487 < 410040 - uint c1 * 487" by simp
  then show ?thesis
    by (simp only: word_sless_alt sint_code_to_temp le_3ff_and [OF c1] le_3ff_and [OF assms(2)])
qed

text \<open>
  C7: for every code \<open>c\<close> in 0..1023, converting \<open>c\<close> to a temperature and back with
  \<open>low\<close> unset gives \<open>c\<close> again, exactly; and \<open>avs_tmon_code_to_temp\<close> is strictly
  decreasing on 0..1023: a higher code is a lower temperature.
\<close>

theorem code_temp_roundtrip_antimono:
  "(c \<le> 0x3ff \<longrightarrow> avs_tmon_temp_to_code (avs_tmon_code_to_temp c) False = c)
   \<and> (c1 < c2 \<and> c2 \<le> 0x3ff \<longrightarrow> sint (avs_tmon_code_to_temp c2) < sint (avs_tmon_code_to_temp c1))"
  using code_to_temp_roundtrip [of c] code_to_temp_antimono [of c1 c2]
  by (simp add: word_sless_alt)

theorem code_temp_roundtrip_antimono_witness:
  "(700::u32) \<le> 0x3ff \<and> avs_tmon_temp_to_code (avs_tmon_code_to_temp 700) False = 700
   \<and> (700::u32) < 701 \<and> (701::u32) \<le> 0x3ff
   \<and> sint (avs_tmon_code_to_temp 701) < sint (avs_tmon_code_to_temp 700)"
  using code_temp_roundtrip_antimono [of 700 700 701] by simp

section \<open>The governor callbacks, the register access layer and the interrupt handler\<close>

subsection \<open>Reading the temperature\<close>

lemma long_roundtrip: "ucast (scast (w :: 32 word) :: 64 word) = w"
  by (rule bit_word_eqI) (auto simp add: bit_simps)

lemma long_negative: "((scast (w :: 32 word) :: 64 word) <s 0) = (sint w < 0)"
  by (simp add: word_sless_alt sint_up_scast is_up)

lemma sint_clamp0:
  "sint (if sint (w::s32) < 0 then 0 else w) = max 0 (sint w)"
  by simp

lemma get_temp_unfold:
  "brcmstb_get_temp socdata s =
     (if regs s AVS_TMON_STATUS AND status_valid_mask socdata = 0 then (Inl EIO, s)
      else (Inr (if sint (avs_tmon_code_to_temp (drop_bit (status_data_shift socdata)
                   (regs s AVS_TMON_STATUS AND status_data_mask socdata))) < 0 then 0
                 else avs_tmon_code_to_temp (drop_bit (status_data_shift socdata)
                   (regs s AVS_TMON_STATUS AND status_data_mask socdata))), s))"
  by (simp add: brcmstb_get_temp_def raw_readl_def Let_def long_roundtrip long_negative)

text \<open>
  C3: \<open>brcmstb_get_temp\<close> fails with \<open>-EIO\<close> (the specification's \<open>NotReady\<close>) exactly
  when the valid bit of the variant is unset in the status register; it never writes a
  register, the state after the call is the state before it; and when the valid bit is
  set it reports \<open>max 0\<close> of the temperature converted from the data field, taken out with
  the variant's mask and shift, so that a negative temperature is reported as 0.
\<close>

theorem get_temp_spec:
  "(fst (brcmstb_get_temp socdata s) = Inl EIO
      \<longleftrightarrow> raw_readl s AVS_TMON_STATUS AND status_valid_mask socdata = 0)
   \<and> snd (brcmstb_get_temp socdata s) = s
   \<and> (case fst (brcmstb_get_temp socdata s) of
         Inl e \<Rightarrow> e = EIO \<and> raw_readl s AVS_TMON_STATUS AND status_valid_mask socdata = 0
       | Inr temp \<Rightarrow>
           raw_readl s AVS_TMON_STATUS AND status_valid_mask socdata \<noteq> 0
           \<and> sint temp = max 0 (sint (avs_tmon_code_to_temp
                 (drop_bit (status_data_shift socdata)
                    (raw_readl s AVS_TMON_STATUS AND status_data_mask socdata)))))"
proof (cases "regs s AVS_TMON_STATUS AND status_valid_mask socdata = 0")
  case True
  then show ?thesis unfolding get_temp_unfold raw_readl_def by simp
next
  case False
  then show ?thesis
    unfolding get_temp_unfold raw_readl_def
    by (simp only: if_False fst_conv snd_conv sum.case sint_clamp0 simp_thms sum.distinct)
qed

theorem get_temp_spec_witness:
  "brcmstb_get_temp bcm2711_thermal_of_data
      \<lparr>regs = (\<lambda>_. 0)(AVS_TMON_STATUS := 0x658), writes = [], notified = []\<rparr>
     = (Inr 117840, \<lparr>regs = (\<lambda>_. 0)(AVS_TMON_STATUS := 0x658), writes = [], notified = []\<rparr>)
   \<and> brcmstb_get_temp bcm2711_thermal_of_data
      \<lparr>regs = (\<lambda>_. 0)(AVS_TMON_STATUS := 0x7e8), writes = [], notified = []\<rparr>
     = (Inr 0, \<lparr>regs = (\<lambda>_. 0)(AVS_TMON_STATUS := 0x7e8), writes = [], notified = []\<rparr>)
   \<and> fst (brcmstb_get_temp bcm7445_thermal_of_data
      \<lparr>regs = (\<lambda>_. 0)(AVS_TMON_STATUS := 0x658), writes = [], notified = []\<rparr>) = Inl EIO"
proof -
  let ?s = "\<lparr>regs = (\<lambda>_. 0)(AVS_TMON_STATUS := 0x658), writes = [], notified = []\<rparr>"
  have v: "raw_readl ?s AVS_TMON_STATUS AND status_valid_mask bcm7445_thermal_of_data = 0"
    by (simp add: raw_readl_def bcm7445_thermal_of_data_def BIT_def)
  have "fst (brcmstb_get_temp bcm7445_thermal_of_data ?s) = Inl EIO"
    using get_temp_spec [of bcm7445_thermal_of_data ?s] v by blast
  moreover have "brcmstb_get_temp bcm2711_thermal_of_data ?s = (Inr 117840, ?s)"
    by (simp add: get_temp_unfold bcm2711_thermal_of_data_def BIT_def GENMASK_def
          avs_tmon_code_to_temp_def tmon_consts mask_numeral)
  moreover have "brcmstb_get_temp bcm2711_thermal_of_data
      \<lparr>regs = (\<lambda>_. 0)(AVS_TMON_STATUS := 0x7e8), writes = [], notified = []\<rparr>
     = (Inr 0, \<lparr>regs = (\<lambda>_. 0)(AVS_TMON_STATUS := 0x7e8), writes = [], notified = []\<rparr>)"
    by (simp add: get_temp_unfold bcm2711_thermal_of_data_def BIT_def GENMASK_def
          avs_tmon_code_to_temp_def tmon_consts mask_numeral)
  ultimately show ?thesis by (simp only: simp_thms)
qed

subsection \<open>Trip enable bits and the interrupt handler\<close>

lemma trip_enable_regs:
  "regs (avs_tmon_trip_enable type en s) =
     (regs s)(enable_offs (avs_tmon_trips type) :=
        (if en then regs s (enable_offs (avs_tmon_trips type)) OR enable_mask (avs_tmon_trips type)
         else regs s (enable_offs (avs_tmon_trips type)) AND NOT (enable_mask (avs_tmon_trips type))))"
  by (simp add: avs_tmon_trip_enable_def raw_writel_def raw_readl_def Let_def)

lemma trip_enable_writes:
  "writes (avs_tmon_trip_enable type en s) =
     writes s @ [(enable_offs (avs_tmon_trips type),
        (if en then regs s (enable_offs (avs_tmon_trips type)) OR enable_mask (avs_tmon_trips type)
         else regs s (enable_offs (avs_tmon_trips type)) AND NOT (enable_mask (avs_tmon_trips type))))]"
  by (simp add: avs_tmon_trip_enable_def raw_writel_def raw_readl_def Let_def)

lemma trip_enable_notified: "notified (avs_tmon_trip_enable type en s) = notified s"
  by (simp add: avs_tmon_trip_enable_def raw_writel_def Let_def)

lemma set_trip_temp_regs:
  "regs (avs_tmon_set_trip_temp type temp s) =
     (regs s)(reg_offs (avs_tmon_trips type) :=
        (regs s (reg_offs (avs_tmon_trips type)) AND NOT (reg_msk (avs_tmon_trips type)))
        OR (push_bit (reg_shift (avs_tmon_trips type))
              (avs_tmon_temp_to_code temp (type = TMON_TRIP_TYPE_LOW))
            AND reg_msk (avs_tmon_trips type)))"
  by (simp add: avs_tmon_set_trip_temp_def raw_writel_def raw_readl_def Let_def)

lemma set_trip_temp_writes:
  "writes (avs_tmon_set_trip_temp type temp s) =
     writes s @ [(reg_offs (avs_tmon_trips type),
        (regs s (reg_offs (avs_tmon_trips type)) AND NOT (reg_msk (avs_tmon_trips type)))
        OR (push_bit (reg_shift (avs_tmon_trips type))
              (avs_tmon_temp_to_code temp (type = TMON_TRIP_TYPE_LOW))
            AND reg_msk (avs_tmon_trips type)))]"
  by (simp add: avs_tmon_set_trip_temp_def raw_writel_def raw_readl_def Let_def)

lemma set_trip_temp_notified: "notified (avs_tmon_set_trip_temp type temp s) = notified s"
  by (simp add: avs_tmon_set_trip_temp_def raw_writel_def Let_def)

lemma enable_bits:
  "(v AND NOT AVS_TMON_EN_TEMP_INT_SRCS_high) AND AVS_TMON_EN_TEMP_INT_SRCS_high = 0"
  "(v AND NOT AVS_TMON_EN_TEMP_INT_SRCS_low) AND AVS_TMON_EN_TEMP_INT_SRCS_low = 0"
  "(v AND NOT AVS_TMON_EN_TEMP_INT_SRCS_high) AND AVS_TMON_EN_TEMP_INT_SRCS_low
     = v AND AVS_TMON_EN_TEMP_INT_SRCS_low"
  "(v AND NOT AVS_TMON_EN_TEMP_INT_SRCS_low) AND AVS_TMON_EN_TEMP_INT_SRCS_high
     = v AND AVS_TMON_EN_TEMP_INT_SRCS_high"
  "(v OR AVS_TMON_EN_TEMP_INT_SRCS_high) AND AVS_TMON_EN_TEMP_INT_SRCS_low
     = v AND AVS_TMON_EN_TEMP_INT_SRCS_low"
  "(v OR AVS_TMON_EN_TEMP_INT_SRCS_low) AND AVS_TMON_EN_TEMP_INT_SRCS_high
     = v AND AVS_TMON_EN_TEMP_INT_SRCS_high"
  "(v OR AVS_TMON_EN_TEMP_INT_SRCS_high) AND AVS_TMON_EN_TEMP_INT_SRCS_high
     = AVS_TMON_EN_TEMP_INT_SRCS_high"
  "(v OR AVS_TMON_EN_TEMP_INT_SRCS_low) AND AVS_TMON_EN_TEMP_INT_SRCS_low
     = AVS_TMON_EN_TEMP_INT_SRCS_low"
  unfolding AVS_TMON_EN_TEMP_INT_SRCS_high_def AVS_TMON_EN_TEMP_INT_SRCS_low_def BIT_def
  by (rule bit_word_eqI; auto simp add: bit_simps)+

lemma enable_mask_nonzero:
  "AVS_TMON_EN_TEMP_INT_SRCS_low \<noteq> 0" "AVS_TMON_EN_TEMP_INT_SRCS_high \<noteq> 0"
  by (simp_all add: AVS_TMON_EN_TEMP_INT_SRCS_high_def AVS_TMON_EN_TEMP_INT_SRCS_low_def BIT_def)

lemma not_sle_iff: "(\<not> a \<le>s b) = (sint b < sint a)"
  by (simp add: word_sle_eq not_le)

text \<open>
  C1: in every register state where the temperature captured in \<open>TEMP_INT_CODE\<close> is at
  least the HIGH threshold temperature and strictly above the LOW threshold temperature,
  the interrupt handler returns \<open>IRQ_HANDLED\<close>, clears the HIGH enable bit, leaves the
  LOW enable bit (and every other register) as it was, writes the enable register once
  and nothing else, and makes exactly one more \<open>thermal_zone_device_update\<close> call, whose
  argument is the captured temperature (read from \<open>TEMP_INT_CODE\<close>, not from the status
  register).
\<close>

theorem irq_high_crossing:
  assumes "sint (avs_tmon_get_trip_temp s TMON_TRIP_TYPE_HIGH)
             \<le> sint (avs_tmon_code_to_temp (raw_readl s AVS_TMON_TEMP_INT_CODE))"
      and "sint (avs_tmon_get_trip_temp s TMON_TRIP_TYPE_LOW)
             < sint (avs_tmon_code_to_temp (raw_readl s AVS_TMON_TEMP_INT_CODE))"
  shows "fst (brcmstb_tmon_irq_thread s) = IRQ_HANDLED
    \<and> regs (snd (brcmstb_tmon_irq_thread s)) AVS_TMON_EN_TEMP_INT_SRCS AND AVS_TMON_EN_TEMP_INT_SRCS_high = 0
    \<and> regs (snd (brcmstb_tmon_irq_thread s)) AVS_TMON_EN_TEMP_INT_SRCS AND AVS_TMON_EN_TEMP_INT_SRCS_low
        = regs s AVS_TMON_EN_TEMP_INT_SRCS AND AVS_TMON_EN_TEMP_INT_SRCS_low
    \<and> notified (snd (brcmstb_tmon_irq_thread s))
        = notified s @ [avs_tmon_code_to_temp (raw_readl s AVS_TMON_TEMP_INT_CODE)]
    \<and> regs (snd (brcmstb_tmon_irq_thread s))
        = (regs s)(AVS_TMON_EN_TEMP_INT_SRCS :=
             regs s AVS_TMON_EN_TEMP_INT_SRCS AND NOT AVS_TMON_EN_TEMP_INT_SRCS_high)
    \<and> writes (snd (brcmstb_tmon_irq_thread s))
        = writes s @ [(AVS_TMON_EN_TEMP_INT_SRCS,
             regs s AVS_TMON_EN_TEMP_INT_SRCS AND NOT AVS_TMON_EN_TEMP_INT_SRCS_high)]"
proof -
  let ?intr = "avs_tmon_get_intr_temp s"
  have h: "avs_tmon_get_trip_temp s TMON_TRIP_TYPE_HIGH \<le>s ?intr"
    using assms(1) by (simp add: word_sle_eq avs_tmon_get_intr_temp_def)
  have l: "\<not> ?intr \<le>s avs_tmon_get_trip_temp s TMON_TRIP_TYPE_LOW"
    using assms(2) by (simp add: not_sle_iff avs_tmon_get_intr_temp_def)
  have run: "brcmstb_tmon_irq_thread s =
      (IRQ_HANDLED, thermal_zone_device_update ?intr (avs_tmon_trip_enable TMON_TRIP_TYPE_HIGH False s))"
    unfolding brcmstb_tmon_irq_thread_def Let_def by (simp only: h l if_True if_False)
  show ?thesis
    unfolding run
    by (simp add: thermal_zone_device_update_def trip_enable_regs trip_enable_writes
          trip_enable_notified avs_tmon_get_intr_temp_def enable_bits)
qed

theorem irq_high_crossing_witness:
  "let s0 = \<lparr>regs = (\<lambda>_. 0)(AVS_TMON_INT_THRESH := 91752000, AVS_TMON_TEMP_INT_CODE := 650,
                           AVS_TMON_EN_TEMP_INT_SRCS := 3),
             writes = [], notified = []\<rparr>
   in sint (avs_tmon_get_trip_temp s0 TMON_TRIP_TYPE_HIGH) = 69140
    \<and> sint (avs_tmon_get_trip_temp s0 TMON_TRIP_TYPE_LOW) = 20440
    \<and> sint (avs_tmon_code_to_temp (raw_readl s0 AVS_TMON_TEMP_INT_CODE)) = 93490
    \<and> fst (brcmstb_tmon_irq_thread s0) = IRQ_HANDLED
    \<and> regs (snd (brcmstb_tmon_irq_thread s0)) AVS_TMON_EN_TEMP_INT_SRCS = 1
    \<and> map sint (notified (snd (brcmstb_tmon_irq_thread s0))) = [93490]
    \<and> writes (snd (brcmstb_tmon_irq_thread s0)) = [(AVS_TMON_EN_TEMP_INT_SRCS, 1)]"
proof -
  let ?s = "\<lparr>regs = (\<lambda>_. 0)(AVS_TMON_INT_THRESH := 91752000, AVS_TMON_TEMP_INT_CODE := 650,
                           AVS_TMON_EN_TEMP_INT_SRCS := 3),
             writes = [], notified = []\<rparr>"
  have hi: "avs_tmon_get_trip_temp ?s TMON_TRIP_TYPE_HIGH = 69140"
    by (simp add: avs_tmon_get_trip_temp_def raw_readl_def Let_def trip_consts GENMASK_def
          avs_tmon_code_to_temp_def tmon_consts mask_numeral)
  have lo: "avs_tmon_get_trip_temp ?s TMON_TRIP_TYPE_LOW = 20440"
    by (simp add: avs_tmon_get_trip_temp_def raw_readl_def Let_def trip_consts GENMASK_def
          avs_tmon_code_to_temp_def tmon_consts mask_numeral)
  have intr: "avs_tmon_code_to_temp (raw_readl ?s AVS_TMON_TEMP_INT_CODE) = 93490"
    by (simp add: raw_readl_def trip_consts avs_tmon_code_to_temp_def tmon_consts)
  have h1: "sint (avs_tmon_get_trip_temp ?s TMON_TRIP_TYPE_HIGH)
              \<le> sint (avs_tmon_code_to_temp (raw_readl ?s AVS_TMON_TEMP_INT_CODE))"
    unfolding hi intr by simp
  have h2: "sint (avs_tmon_get_trip_temp ?s TMON_TRIP_TYPE_LOW)
              < sint (avs_tmon_code_to_temp (raw_readl ?s AVS_TMON_TEMP_INT_CODE))"
    unfolding lo intr by simp
  have en: "(3::u32) AND NOT AVS_TMON_EN_TEMP_INT_SRCS_high = 1"
    by (simp add: AVS_TMON_EN_TEMP_INT_SRCS_high_def BIT_def)
  show ?thesis
    using irq_high_crossing [OF h1 h2]
    unfolding Let_def hi lo intr by (simp add: en)
qed

subsection \<open>Threshold writes and the trip window\<close>

lemma int_thresh_shape:
  "AVS_TMON_INT_THRESH_low_msk = push_bit AVS_TMON_INT_THRESH_low_shift (mask 10)"
  "AVS_TMON_INT_THRESH_high_msk = push_bit AVS_TMON_INT_THRESH_high_shift (mask 10)"
  "AVS_TMON_INT_THRESH_low_shift + 10 \<le> AVS_TMON_INT_THRESH_high_shift"
  "AVS_TMON_INT_THRESH_high_shift + 10 \<le> 32"
  "AVS_TMON_INT_THRESH_low_shift + 10 \<le> 32"
  by (simp_all add: trip_consts GENMASK_def)

lemma field_write_read:
  assumes "sh + 10 \<le> 32" "c \<le> 0x3ff"
  shows "drop_bit sh (((orig AND NOT (push_bit sh (mask 10))) OR (push_bit sh (c::u32) AND push_bit sh (mask 10)))
      AND push_bit sh (mask 10)) = c"
  using field_read_back [OF assms(1), of orig c] by (simp only: le_3ff_take_bit [OF assms(2)])

lemma low_field_write:
  "drop_bit AVS_TMON_INT_THRESH_low_shift
     (((orig AND NOT AVS_TMON_INT_THRESH_low_msk)
        OR (push_bit AVS_TMON_INT_THRESH_low_shift (avs_tmon_temp_to_code t low) AND AVS_TMON_INT_THRESH_low_msk))
      AND AVS_TMON_INT_THRESH_low_msk) = avs_tmon_temp_to_code t low"
  unfolding int_thresh_shape(1)
  by (rule field_write_read [OF int_thresh_shape(5) temp_to_code_le_3ff])

lemma high_field_write:
  "drop_bit AVS_TMON_INT_THRESH_high_shift
     (((orig AND NOT AVS_TMON_INT_THRESH_high_msk)
        OR (push_bit AVS_TMON_INT_THRESH_high_shift (avs_tmon_temp_to_code t low) AND AVS_TMON_INT_THRESH_high_msk))
      AND AVS_TMON_INT_THRESH_high_msk) = avs_tmon_temp_to_code t low"
  unfolding int_thresh_shape(2)
  by (rule field_write_read [OF int_thresh_shape(4) temp_to_code_le_3ff])

lemma low_write_keeps_high:
  "((orig AND NOT AVS_TMON_INT_THRESH_low_msk) OR (v AND AVS_TMON_INT_THRESH_low_msk))
      AND AVS_TMON_INT_THRESH_high_msk = orig AND AVS_TMON_INT_THRESH_high_msk"
  unfolding int_thresh_shape(1,2)
  by (rule field_other) (use int_thresh_shape(3) in simp)

lemma high_write_keeps_low:
  "((orig AND NOT AVS_TMON_INT_THRESH_high_msk) OR (v AND AVS_TMON_INT_THRESH_high_msk))
      AND AVS_TMON_INT_THRESH_low_msk = orig AND AVS_TMON_INT_THRESH_low_msk"
  unfolding int_thresh_shape(1,2)
  by (rule field_other) (use int_thresh_shape(3) in simp)

lemma write_keeps_outside:
  "((orig AND NOT m) OR (v AND m)) AND NOT (m OR m') = orig AND NOT (m OR (m'::u32))"
  "((orig AND NOT m') OR (v AND m')) AND NOT (m OR m') = orig AND NOT (m OR (m'::u32))"
  by (rule bit_word_eqI; auto simp add: bit_simps)+

lemma enable_keeps_outside:
  "(v AND NOT m) AND NOT (m OR m') = v AND NOT (m OR (m'::u32))"
  "(v AND NOT m') AND NOT (m OR m') = v AND NOT (m OR (m'::u32))"
  "(v OR m) AND NOT (m OR m') = v AND NOT (m OR (m'::u32))"
  "(v OR m') AND NOT (m OR m') = v AND NOT (m OR (m'::u32))"
  by (rule bit_word_eqI; auto simp add: bit_simps)+

lemma enable_both_clear:
  "((v AND NOT l) AND NOT h) AND NOT l AND NOT h = v AND NOT l AND NOT (h::u32)"
  by (rule bit_word_eqI) (auto simp add: bit_simps)

lemma offs_distinct: "AVS_TMON_EN_TEMP_INT_SRCS \<noteq> AVS_TMON_INT_THRESH"
  "AVS_TMON_INT_THRESH \<noteq> AVS_TMON_EN_TEMP_INT_SRCS"
  by (simp_all add: trip_consts)

lemma sentinel_low: "(low \<le>s - INT_MAX) = (sint low \<le> - 2147483647)"
  by (simp add: word_sle_eq INT_MAX_def)

lemma sentinel_high: "(high = INT_MAX) = (sint high = 2147483647)"
proof
  assume "high = INT_MAX" then show "sint high = 2147483647" by (simp add: INT_MAX_def)
next
  assume "sint high = 2147483647"
  then have "sint high = sint INT_MAX" by (simp add: INT_MAX_def)
  then show "high = INT_MAX" by (rule signed_word_eqI)
qed

lemma trips_low [simp]:
  "enable_offs (avs_tmon_trips TMON_TRIP_TYPE_LOW) = AVS_TMON_EN_TEMP_INT_SRCS"
  "enable_mask (avs_tmon_trips TMON_TRIP_TYPE_LOW) = AVS_TMON_EN_TEMP_INT_SRCS_low"
  "reg_offs (avs_tmon_trips TMON_TRIP_TYPE_LOW) = AVS_TMON_INT_THRESH"
  "reg_msk (avs_tmon_trips TMON_TRIP_TYPE_LOW) = AVS_TMON_INT_THRESH_low_msk"
  "reg_shift (avs_tmon_trips TMON_TRIP_TYPE_LOW) = AVS_TMON_INT_THRESH_low_shift"
  by simp_all

lemma trips_high [simp]:
  "enable_offs (avs_tmon_trips TMON_TRIP_TYPE_HIGH) = AVS_TMON_EN_TEMP_INT_SRCS"
  "enable_mask (avs_tmon_trips TMON_TRIP_TYPE_HIGH) = AVS_TMON_EN_TEMP_INT_SRCS_high"
  "reg_offs (avs_tmon_trips TMON_TRIP_TYPE_HIGH) = AVS_TMON_INT_THRESH"
  "reg_msk (avs_tmon_trips TMON_TRIP_TYPE_HIGH) = AVS_TMON_INT_THRESH_high_msk"
  "reg_shift (avs_tmon_trips TMON_TRIP_TYPE_HIGH) = AVS_TMON_INT_THRESH_high_shift"
  by simp_all

lemmas set_trips_simps =
  trip_enable_regs trip_enable_writes trip_enable_notified
  set_trip_temp_regs set_trip_temp_writes set_trip_temp_notified
  enable_bits enable_mask_nonzero offs_distinct
  low_field_write high_field_write low_write_keeps_high high_write_keeps_low
  write_keeps_outside enable_keeps_outside enable_both_clear

text \<open>
  C2: for all bounds \<open>low\<close>, \<open>high\<close> and every state, after \<open>brcmstb_set_trips\<close> the LOW
  enable bit is clear exactly when \<open>low \<le> -INT_MAX\<close> and the HIGH enable bit is clear
  exactly when \<open>high = INT_MAX\<close>. A trip that is switched off gets no threshold write (its
  field keeps the old code, one write to the enable register); a trip that is armed gets
  its threshold field written first, with the code of \<open>avs_tmon_temp_to_code\<close> (rounded
  up for LOW, down for HIGH), and its enable bit set after that. Nothing else changes:
  the other bits of the two registers, the other registers and the notifications stay.
  The witness is the case \<open>low = -INT_MAX\<close>, \<open>high = 50000\<close> of the claim.
\<close>

theorem set_trips_spec:
  "let s' = snd (brcmstb_set_trips low high s);
       en = regs s AVS_TMON_EN_TEMP_INT_SRCS; en' = regs s' AVS_TMON_EN_TEMP_INT_SRCS;
       th = regs s AVS_TMON_INT_THRESH; th' = regs s' AVS_TMON_INT_THRESH;
       no_low = (sint low \<le> - 2147483647); no_high = (sint high = 2147483647)
   in (en' AND AVS_TMON_EN_TEMP_INT_SRCS_low = 0 \<longleftrightarrow> no_low)
    \<and> (en' AND AVS_TMON_EN_TEMP_INT_SRCS_high = 0 \<longleftrightarrow> no_high)
    \<and> en' AND NOT (AVS_TMON_EN_TEMP_INT_SRCS_low OR AVS_TMON_EN_TEMP_INT_SRCS_high)
        = en AND NOT (AVS_TMON_EN_TEMP_INT_SRCS_low OR AVS_TMON_EN_TEMP_INT_SRCS_high)
    \<and> drop_bit AVS_TMON_INT_THRESH_low_shift (th' AND AVS_TMON_INT_THRESH_low_msk)
        = (if no_low then drop_bit AVS_TMON_INT_THRESH_low_shift (th AND AVS_TMON_INT_THRESH_low_msk)
           else avs_tmon_temp_to_code low True)
    \<and> drop_bit AVS_TMON_INT_THRESH_high_shift (th' AND AVS_TMON_INT_THRESH_high_msk)
        = (if no_high then drop_bit AVS_TMON_INT_THRESH_high_shift (th AND AVS_TMON_INT_THRESH_high_msk)
           else avs_tmon_temp_to_code high False)
    \<and> th' AND NOT (AVS_TMON_INT_THRESH_low_msk OR AVS_TMON_INT_THRESH_high_msk)
        = th AND NOT (AVS_TMON_INT_THRESH_low_msk OR AVS_TMON_INT_THRESH_high_msk)
    \<and> regs s' = (regs s)(AVS_TMON_INT_THRESH := th', AVS_TMON_EN_TEMP_INT_SRCS := en')
    \<and> take (length (writes s)) (writes s') = writes s
    \<and> map fst (drop (length (writes s)) (writes s'))
        = (if no_low then [AVS_TMON_EN_TEMP_INT_SRCS]
           else [AVS_TMON_INT_THRESH, AVS_TMON_EN_TEMP_INT_SRCS])
          @ (if no_high then [AVS_TMON_EN_TEMP_INT_SRCS]
             else [AVS_TMON_INT_THRESH, AVS_TMON_EN_TEMP_INT_SRCS])
    \<and> notified s' = notified s"
proof -
  consider (nn) "sint low \<le> - 2147483647" "sint high = 2147483647"
    | (ny) "sint low \<le> - 2147483647" "sint high \<noteq> 2147483647"
    | (yn) "\<not> sint low \<le> - 2147483647" "sint high = 2147483647"
    | (yy) "\<not> sint low \<le> - 2147483647" "sint high \<noteq> 2147483647"
    by blast
  then show ?thesis
  proof cases
    case nn
    then show ?thesis
      unfolding brcmstb_set_trips_def Let_def sentinel_low sentinel_high snd_conv
      by (simp add: set_trips_simps del: drop_bit_and drop_bit_or bit.de_Morgan_disj bit.de_Morgan_conj)
  next
    case ny
    then show ?thesis
      unfolding brcmstb_set_trips_def Let_def sentinel_low sentinel_high snd_conv
      by (simp add: set_trips_simps del: drop_bit_and drop_bit_or bit.de_Morgan_disj bit.de_Morgan_conj)
  next
    case yn
    then show ?thesis
      unfolding brcmstb_set_trips_def Let_def sentinel_low sentinel_high snd_conv
      by (simp add: set_trips_simps del: drop_bit_and drop_bit_or bit.de_Morgan_disj bit.de_Morgan_conj)
  next
    case yy
    then show ?thesis
      unfolding brcmstb_set_trips_def Let_def sentinel_low sentinel_high snd_conv
      by (simp add: set_trips_simps del: drop_bit_and drop_bit_or bit.de_Morgan_disj bit.de_Morgan_conj)
  qed
qed

theorem set_trips_spec_witness:
  "\<forall>s. regs (snd (brcmstb_set_trips (- INT_MAX) 50000 s)) AVS_TMON_EN_TEMP_INT_SRCS
          AND AVS_TMON_EN_TEMP_INT_SRCS_low = 0
      \<and> regs (snd (brcmstb_set_trips (- INT_MAX) 50000 s)) AVS_TMON_EN_TEMP_INT_SRCS
          AND AVS_TMON_EN_TEMP_INT_SRCS_high \<noteq> 0
      \<and> drop_bit AVS_TMON_INT_THRESH_high_shift
           (regs (snd (brcmstb_set_trips (- INT_MAX) 50000 s)) AVS_TMON_INT_THRESH
              AND AVS_TMON_INT_THRESH_high_msk) = avs_tmon_temp_to_code 50000 False
      \<and> avs_tmon_temp_to_code 50000 False = 739
      \<and> drop_bit AVS_TMON_INT_THRESH_low_shift
           (regs (snd (brcmstb_set_trips (- INT_MAX) 50000 s)) AVS_TMON_INT_THRESH
              AND AVS_TMON_INT_THRESH_low_msk)
          = drop_bit AVS_TMON_INT_THRESH_low_shift
              (regs s AVS_TMON_INT_THRESH AND AVS_TMON_INT_THRESH_low_msk)
      \<and> map fst (drop (length (writes s)) (writes (snd (brcmstb_set_trips (- INT_MAX) 50000 s))))
          = [AVS_TMON_EN_TEMP_INT_SRCS, AVS_TMON_INT_THRESH, AVS_TMON_EN_TEMP_INT_SRCS]"
proof
  fix s
  have l: "sint (- INT_MAX) \<le> - 2147483647" by (simp add: INT_MAX_def)
  have h: "sint (50000 :: s32) \<noteq> 2147483647" by simp
  have c: "avs_tmon_temp_to_code 50000 False = 739"
    by (simp add: avs_tmon_temp_to_code_def tmon_consts c_div_def signed_divide_int_def)
  show "regs (snd (brcmstb_set_trips (- INT_MAX) 50000 s)) AVS_TMON_EN_TEMP_INT_SRCS
          AND AVS_TMON_EN_TEMP_INT_SRCS_low = 0
      \<and> regs (snd (brcmstb_set_trips (- INT_MAX) 50000 s)) AVS_TMON_EN_TEMP_INT_SRCS
          AND AVS_TMON_EN_TEMP_INT_SRCS_high \<noteq> 0
      \<and> drop_bit AVS_TMON_INT_THRESH_high_shift
           (regs (snd (brcmstb_set_trips (- INT_MAX) 50000 s)) AVS_TMON_INT_THRESH
              AND AVS_TMON_INT_THRESH_high_msk) = avs_tmon_temp_to_code 50000 False
      \<and> avs_tmon_temp_to_code 50000 False = 739
      \<and> drop_bit AVS_TMON_INT_THRESH_low_shift
           (regs (snd (brcmstb_set_trips (- INT_MAX) 50000 s)) AVS_TMON_INT_THRESH
              AND AVS_TMON_INT_THRESH_low_msk)
          = drop_bit AVS_TMON_INT_THRESH_low_shift
              (regs s AVS_TMON_INT_THRESH AND AVS_TMON_INT_THRESH_low_msk)
      \<and> map fst (drop (length (writes s)) (writes (snd (brcmstb_set_trips (- INT_MAX) 50000 s))))
          = [AVS_TMON_EN_TEMP_INT_SRCS, AVS_TMON_INT_THRESH, AVS_TMON_EN_TEMP_INT_SRCS]"
    using set_trips_spec [of "- INT_MAX" 50000 s] l h
    unfolding Let_def by (simp only: c if_True if_False simp_thms append.simps)
qed

subsection \<open>Write isolation of the shared threshold register\<close>

lemma set_trip_temp_outside:
  "regs (avs_tmon_set_trip_temp type t s) (reg_offs (avs_tmon_trips type)) AND NOT (reg_msk (avs_tmon_trips type))
     = regs s (reg_offs (avs_tmon_trips type)) AND NOT (reg_msk (avs_tmon_trips type))"
  unfolding set_trip_temp_regs fun_upd_same by (rule field_outside)

lemma set_trip_temp_field:
  "drop_bit (reg_shift (avs_tmon_trips type))
     (regs (avs_tmon_set_trip_temp type t s) (reg_offs (avs_tmon_trips type)) AND reg_msk (avs_tmon_trips type))
     = avs_tmon_temp_to_code t (type = TMON_TRIP_TYPE_LOW)"
proof -
  have sh: "reg_shift (avs_tmon_trips type) + 10 \<le> 32"
    and m: "reg_msk (avs_tmon_trips type) = push_bit (reg_shift (avs_tmon_trips type)) (mask 10)"
    using trip_msk_shape [of type] by simp_all
  show ?thesis
    unfolding set_trip_temp_regs fun_upd_same m
    by (rule field_write_read [OF sh temp_to_code_le_3ff])
qed

lemma set_trip_temp_others:
  "regs (avs_tmon_set_trip_temp type t s)
     = (regs s)(reg_offs (avs_tmon_trips type) :=
          regs (avs_tmon_set_trip_temp type t s) (reg_offs (avs_tmon_trips type)))"
  unfolding set_trip_temp_regs by simp

lemma get_high_after_high:
  "avs_tmon_get_trip_temp (avs_tmon_set_trip_temp TMON_TRIP_TYPE_HIGH h s) TMON_TRIP_TYPE_HIGH
     = avs_tmon_code_to_temp (avs_tmon_temp_to_code h False)"
  using set_trip_temp_field [of TMON_TRIP_TYPE_HIGH h s]
  by (simp add: avs_tmon_get_trip_temp_def raw_readl_def Let_def del: drop_bit_and drop_bit_or)

lemma get_high_after_low:
  "avs_tmon_get_trip_temp (avs_tmon_set_trip_temp TMON_TRIP_TYPE_LOW l s) TMON_TRIP_TYPE_HIGH
     = avs_tmon_get_trip_temp s TMON_TRIP_TYPE_HIGH"
  by (simp add: avs_tmon_get_trip_temp_def raw_readl_def Let_def set_trip_temp_regs low_write_keeps_high
        del: drop_bit_and drop_bit_or)

lemma conversion_tolerance:
  "max (- 88161) (min 410040 (sint h)) \<le> sint (avs_tmon_code_to_temp (avs_tmon_temp_to_code h False))
   \<and> sint (avs_tmon_code_to_temp (avs_tmon_temp_to_code h False)) < max (- 88161) (min 410040 (sint h)) + 487"
proof -
  let ?c = "avs_tmon_temp_to_code h False"
  have s: "sint (avs_tmon_code_to_temp ?c) = 410040 - uint ?c * 487"
    by (simp only: sint_code_to_temp le_3ff_and [OF temp_to_code_le_3ff])
  consider "sint h < - 88161" | "410040 \<le> sint h" | "- 88161 \<le> sint h" "sint h < 410040"
    by linarith
  then show ?thesis
  proof cases
    case 1
    then show ?thesis unfolding s by (simp add: temp_to_code_sat_low)
  next
    case 2
    then show ?thesis unfolding s by (simp add: temp_to_code_sat_high)
  next
    case 3
    define x where "x = 410040 - sint h"
    have u: "uint ?c = x div 487" unfolding x_def by (rule uint_temp_to_code_floor [OF 3])
    have "x = 487 * (x div 487) + x mod 487" "0 \<le> x mod 487" "x mod 487 < 487" by simp_all
    then have "x - 486 \<le> (x div 487) * 487" "(x div 487) * 487 \<le> x" by linarith+
    then show ?thesis using 3 unfolding s u x_def by simp
  qed
qed

text \<open>
  C8: \<open>avs_tmon_set_trip_temp\<close> changes bits of the trip's threshold register inside the
  trip's field mask only: the bits outside the mask and all other registers stay, and
  the field holds the code of the temperature. So after setting HIGH to \<open>h\<close> and then LOW
  to \<open>l\<close>, HIGH reads back what it read before the LOW write, the temperature of the code
  that \<open>h\<close> converts to; that is at most 486 above \<open>h\<close>, with \<open>h\<close> first clamped to the
  range -88161..410040 that the codes cover.
\<close>

theorem set_trip_temp_isolation:
  "regs (avs_tmon_set_trip_temp type t s) (reg_offs (avs_tmon_trips type)) AND NOT (reg_msk (avs_tmon_trips type))
     = regs s (reg_offs (avs_tmon_trips type)) AND NOT (reg_msk (avs_tmon_trips type))
   \<and> regs (avs_tmon_set_trip_temp type t s)
     = (regs s)(reg_offs (avs_tmon_trips type) :=
          regs (avs_tmon_set_trip_temp type t s) (reg_offs (avs_tmon_trips type)))
   \<and> drop_bit (reg_shift (avs_tmon_trips type))
        (regs (avs_tmon_set_trip_temp type t s) (reg_offs (avs_tmon_trips type)) AND reg_msk (avs_tmon_trips type))
     = avs_tmon_temp_to_code t (type = TMON_TRIP_TYPE_LOW)
   \<and> avs_tmon_get_trip_temp
        (avs_tmon_set_trip_temp TMON_TRIP_TYPE_LOW l (avs_tmon_set_trip_temp TMON_TRIP_TYPE_HIGH h s))
        TMON_TRIP_TYPE_HIGH
     = avs_tmon_get_trip_temp (avs_tmon_set_trip_temp TMON_TRIP_TYPE_HIGH h s) TMON_TRIP_TYPE_HIGH
   \<and> avs_tmon_get_trip_temp
        (avs_tmon_set_trip_temp TMON_TRIP_TYPE_LOW l (avs_tmon_set_trip_temp TMON_TRIP_TYPE_HIGH h s))
        TMON_TRIP_TYPE_HIGH
     = avs_tmon_code_to_temp (avs_tmon_temp_to_code h False)
   \<and> max (- 88161) (min 410040 (sint h))
       \<le> sint (avs_tmon_get_trip_temp
            (avs_tmon_set_trip_temp TMON_TRIP_TYPE_LOW l (avs_tmon_set_trip_temp TMON_TRIP_TYPE_HIGH h s))
            TMON_TRIP_TYPE_HIGH)
   \<and> sint (avs_tmon_get_trip_temp
            (avs_tmon_set_trip_temp TMON_TRIP_TYPE_LOW l (avs_tmon_set_trip_temp TMON_TRIP_TYPE_HIGH h s))
            TMON_TRIP_TYPE_HIGH)
       < max (- 88161) (min 410040 (sint h)) + 487"
  using conversion_tolerance [of h]
  by (intro conjI)
     (simp_all only: get_high_after_low get_high_after_high set_trip_temp_outside
        set_trip_temp_field set_trip_temp_others [symmetric])

theorem set_trip_temp_isolation_witness:
  "let s0 = \<lparr>regs = (\<lambda>_. 0), writes = [], notified = []\<rparr>;
       s2 = avs_tmon_set_trip_temp TMON_TRIP_TYPE_LOW 20000
              (avs_tmon_set_trip_temp TMON_TRIP_TYPE_HIGH 50000 s0)
   in sint (avs_tmon_get_trip_temp s2 TMON_TRIP_TYPE_HIGH) = 50147
    \<and> sint (avs_tmon_get_trip_temp s2 TMON_TRIP_TYPE_LOW) = 19953"
proof -
  let ?s0 = "\<lparr>regs = (\<lambda>_. 0), writes = [], notified = []\<rparr>"
  have c: "avs_tmon_temp_to_code 50000 False = 739"
    by (simp add: avs_tmon_temp_to_code_def tmon_consts c_div_def signed_divide_int_def)
  have t: "sint (avs_tmon_code_to_temp 739) = 50147"
    by (simp add: avs_tmon_code_to_temp_def tmon_consts)
  have "avs_tmon_get_trip_temp
        (avs_tmon_set_trip_temp TMON_TRIP_TYPE_LOW 20000
           (avs_tmon_set_trip_temp TMON_TRIP_TYPE_HIGH 50000 ?s0)) TMON_TRIP_TYPE_HIGH
      = avs_tmon_code_to_temp (avs_tmon_temp_to_code 50000 False)"
    using set_trip_temp_isolation [of TMON_TRIP_TYPE_HIGH 50000 ?s0 20000 50000] by blast
  then have hi: "sint (avs_tmon_get_trip_temp
        (avs_tmon_set_trip_temp TMON_TRIP_TYPE_LOW 20000
           (avs_tmon_set_trip_temp TMON_TRIP_TYPE_HIGH 50000 ?s0)) TMON_TRIP_TYPE_HIGH) = 50147"
    by (simp only: c t)
  have cl: "avs_tmon_temp_to_code 20000 True = 801"
    by (simp add: avs_tmon_temp_to_code_def tmon_consts DIV_ROUND_UP_def c_div_def signed_divide_int_def)
  have tl: "sint (avs_tmon_code_to_temp 801) = 19953"
    by (simp add: avs_tmon_code_to_temp_def tmon_consts)
  have "drop_bit (reg_shift (avs_tmon_trips TMON_TRIP_TYPE_LOW))
     (regs (avs_tmon_set_trip_temp TMON_TRIP_TYPE_LOW 20000
        (avs_tmon_set_trip_temp TMON_TRIP_TYPE_HIGH 50000 ?s0)) (reg_offs (avs_tmon_trips TMON_TRIP_TYPE_LOW))
       AND reg_msk (avs_tmon_trips TMON_TRIP_TYPE_LOW)) = 801"
    by (simp only: set_trip_temp_field cl simp_thms)
  then have lo: "sint (avs_tmon_get_trip_temp
        (avs_tmon_set_trip_temp TMON_TRIP_TYPE_LOW 20000
           (avs_tmon_set_trip_temp TMON_TRIP_TYPE_HIGH 50000 ?s0)) TMON_TRIP_TYPE_LOW) = 19953"
    by (simp only: avs_tmon_get_trip_temp_def raw_readl_def Let_def tl)
  show ?thesis unfolding Let_def using hi lo by (simp only: simp_thms)
qed

text \<open>
  C10: \<open>brcmstb_set_trips\<close> returns 0 for every pair of bounds and every register state.
\<close>

theorem set_trips_returns_zero: "fst (brcmstb_set_trips low high s) = 0"
  by (simp add: brcmstb_set_trips_def Let_def)

end
